theory Spec2Isabelle
  imports Complex_Main "HOL-Library.AList"
begin

section \<open>JavaScript values, objects and thrown values\<close>

text \<open>
  The hook \<^verbatim>\<open>useForm\<close> of \<^verbatim>\<open>src/hooks/useForm.ts\<close> keeps four pieces of React state
  (\<^verbatim>\<open>values\<close>, \<^verbatim>\<open>errors\<close>, \<^verbatim>\<open>touched\<close>, \<^verbatim>\<open>isSubmitting\<close>) and a set of handlers over them.
  A handler is modelled as a function from the state of the render it was created in to
  the state after all of its \<^verbatim>\<open>setState\<close> calls have been applied, in the order the handler
  issues them. Handlers run one at a time: the interleaving of two pending handlers is
  not modelled.

  A JavaScript object is an association list in insertion order. The spread-and-override
  \<^verbatim>\<open>{ ...prev, [k]: v }\<close> is \<open>AList.update k v prev\<close>, a property read \<^verbatim>\<open>o[k]\<close> is
  \<open>getProp o k\<close> and \<^verbatim>\<open>Object.keys(o)\<close> is \<open>Object_keys o\<close>.
\<close>

type_synonym 'v obj = "(string \<times> 'v) list"

text \<open>A \<^verbatim>\<open>File\<close> of a file input, identified by a handle.\<close>

type_synonym fileRef = nat

text \<open>
  A JavaScript number. The conversion \<^verbatim>\<open>Number(text)\<close> itself is a builtin of the language
  and enters the model as a parameter (\<open>Number\<close> of \<open>globals\<close> below).
\<close>

datatype jsnumber = NaN | Finite rat | PosInfinity | NegInfinity

datatype jsval =
    JUndefined
  | JNull
  | JString string
  | JNumber jsnumber
  | JBoolean bool
  | JFile fileRef
  | JArray "jsval list"

definition Object_keys :: "'v obj \<Rightarrow> string list" where
  "Object_keys ob = map fst ob"

definition getProp :: "jsval obj \<Rightarrow> string \<Rightarrow> jsval" where
  "getProp ob k = (case map_of ob k of None \<Rightarrow> JUndefined | Some v \<Rightarrow> v)"

text \<open>
  What a validator can throw. yup reports a \<^verbatim>\<open>ValidationError\<close> carrying a message and the
  list \<^verbatim>\<open>inner\<close> of per-path errors; zod reports a \<^verbatim>\<open>ZodError\<close> carrying the list \<^verbatim>\<open>issues\<close>,
  and its \<^verbatim>\<open>message\<close> property is the text the library derives from that list (the JSON
  serialisation of the issues). \<open>Error\<close> is any other \<^verbatim>\<open>Error\<close> object (\<^verbatim>\<open>new Error(msg)\<close>, a
  \<^verbatim>\<open>RangeError\<close>, ...), \<open>Thrown\<close> any value that is not an \<^verbatim>\<open>Error\<close> at all.
\<close>

datatype innerError = InnerError (err_path: "string option") (err_message: string)

datatype pathSeg = Key string | Index nat

datatype zodIssue = ZodIssue (issue_path: "pathSeg list") (issue_message: string)

datatype thrown =
    ValidationError string "innerError list"
  | ZodError string "zodIssue list"
  | Error string
  | Thrown jsval

text \<open>
  The \<^verbatim>\<open>instanceof\<close> tests of the two \<^verbatim>\<open>catch\<close> blocks. Both libraries declare their error
  class as a subclass of the builtin one (\<^verbatim>\<open>class ValidationError extends Error\<close> in yup,
  \<^verbatim>\<open>class ZodError extends Error\<close> in zod), so \<^verbatim>\<open>instanceof Error\<close> holds of all three.
\<close>

fun instanceof_ValidationError :: "thrown \<Rightarrow> bool" where
  "instanceof_ValidationError (ValidationError m inner) = True"
| "instanceof_ValidationError e = False"

fun instanceof_ZodError :: "thrown \<Rightarrow> bool" where
  "instanceof_ZodError (ZodError m issues) = True"
| "instanceof_ZodError e = False"

fun instanceof_Error :: "thrown \<Rightarrow> bool" where
  "instanceof_Error (Thrown v) = False"
| "instanceof_Error e = True"

text \<open>
  The properties \<^verbatim>\<open>message\<close>, \<^verbatim>\<open>inner\<close> and \<^verbatim>\<open>issues\<close>. The source reads each of them only
  after the \<^verbatim>\<open>instanceof\<close> test that guarantees it; the last equation of each function is
  never reached from the model.
\<close>

fun error_message :: "thrown \<Rightarrow> string" where
  "error_message (ValidationError m inner) = m"
| "error_message (ZodError m issues) = m"
| "error_message (Error m) = m"
| "error_message (Thrown v) = []"

fun error_inner :: "thrown \<Rightarrow> innerError list" where
  "error_inner (ValidationError m inner) = inner"
| "error_inner e = []"

fun error_issues :: "thrown \<Rightarrow> zodIssue list" where
  "error_issues (ZodError m issues) = issues"
| "error_issues e = []"

section \<open>Options and state of the hook\<close>

type_synonym formValues = "jsval obj"

text \<open>
  \<^verbatim>\<open>FormErrors<T> = Partial<Record<keyof T, string>>\<close>: a property of the errors object holds a
  message or \<^verbatim>\<open>undefined\<close>. \<open>map_of errors k = None\<close> says that the object has no key \<open>k\<close>,
  \<open>map_of errors k = Some None\<close> that it has the key, holding \<^verbatim>\<open>undefined\<close>.
\<close>

type_synonym formErrors = "string option obj"

type_synonym formTouched = "bool obj"

text \<open>
  \<^verbatim>\<open>ValidationSchema<T>\<close>, in the order the source tests it: a yup \<^verbatim>\<open>Schema\<close> with its methods
  \<^verbatim>\<open>validateAt(path, value)\<close> and \<^verbatim>\<open>validate(value, { abortEarly: false })\<close>, a \<^verbatim>\<open>ZodSchema\<close> with
  \<^verbatim>\<open>parseAsync(value)\<close>, or a plain function from the values to the errors. A method that
  resolves gives \<open>None\<close>, one that rejects gives the thrown value; the function validator
  returns its errors object (\<open>Inr\<close>) or throws (\<open>Inl\<close>).
\<close>

datatype validationSchema =
    Schema "string \<Rightarrow> formValues \<Rightarrow> thrown option" "formValues \<Rightarrow> thrown option"
  | ZodSchema "formValues \<Rightarrow> thrown option"
  | ValidationFunction "formValues \<Rightarrow> thrown + formErrors"

text \<open>
  The \<^verbatim>\<open>onSubmit\<close> callback receives the values and the two capabilities \<^verbatim>\<open>resetForm\<close> and
  \<^verbatim>\<open>setSubmitting\<close>. Its effect on the hook is the sequence of calls it makes on them, and
  it ends by returning (\<open>None\<close>) or by throwing (\<open>Some e\<close>; a rejected promise is the same
  under \<^verbatim>\<open>await\<close>).
\<close>

datatype action = ResetForm | SetSubmitting bool

record useFormOptions =
  initialValues :: formValues
  validationSchema :: "validationSchema option"
  onSubmit :: "formValues \<Rightarrow> action list \<times> thrown option"
  validateOnChange :: bool
  validateOnBlur :: bool

record formState =
  "values" :: formValues
  errors :: formErrors
  touched :: formTouched
  isSubmitting :: bool

text \<open>
  The builtins the normalizer calls: \<^verbatim>\<open>Number(text)\<close>, which never throws, and
  \<^verbatim>\<open>new Date(text).toISOString()\<close>, which throws a \<^verbatim>\<open>RangeError\<close> on an invalid date (\<open>None\<close>).
\<close>

record globals =
  Number :: "string \<Rightarrow> jsnumber"
  Date_toISOString :: "string \<Rightarrow> string option"

text \<open>\<^verbatim>\<open>e.target\<close> of a change or blur event.\<close>

record target =
  name :: string
  "value" :: string
  type :: string
  files :: "fileRef list option"
  checked :: bool

section \<open>The validator adapter\<close>

text \<open>
  \<^verbatim>\<open>validateField\<close>, lines 46 to 87. \<open>validateField_try\<close> is the body of the \<^verbatim>\<open>try\<close> block: its
  result is the value thrown inside it, if any (every path that completes returns
  \<^verbatim>\<open>undefined\<close>). \<open>validateField_catch\<close> is the \<^verbatim>\<open>catch\<close> block.
\<close>

fun validateField_try :: "validationSchema \<Rightarrow> formValues \<Rightarrow> string \<Rightarrow> jsval \<Rightarrow> thrown option" where
  "validateField_try (Schema validateAt validate) vals field v = validateAt field [(field, v)]"
| "validateField_try (ZodSchema parseAsync) vals field v = parseAsync [(field, v)]"
| "validateField_try (ValidationFunction f) vals field v =
     (case f (AList.update field v vals) of
        Inl e \<Rightarrow> Some e
      | Inr validationErrors \<Rightarrow>
          (case map_of validationErrors field of
             Some (Some msg) \<Rightarrow> (if msg = [] then None else Some (Error msg))
           | Some None \<Rightarrow> None
           | None \<Rightarrow> None))"

definition validateField_catch :: "string \<Rightarrow> thrown \<Rightarrow> string option" where
  "validateField_catch field e =
     (if instanceof_ValidationError e \<or> instanceof_Error e then Some (error_message e)
      else if instanceof_ZodError e then
        Some (case find (\<lambda>issue. Key field \<in> set (issue_path issue)) (error_issues e) of
                None \<Rightarrow> ''Invalid value''
              | Some issue \<Rightarrow>
                  (if issue_message issue = [] then ''Invalid value'' else issue_message issue))
      else Some ''Invalid value'')"

definition validateField :: "useFormOptions \<Rightarrow> formValues \<Rightarrow> string \<Rightarrow> jsval \<Rightarrow> string option" where
  "validateField opts vals field v =
     (case validationSchema opts of
        None \<Rightarrow> None
      | Some schema \<Rightarrow>
          (case validateField_try schema vals field v of
             None \<Rightarrow> None
           | Some e \<Rightarrow> validateField_catch field e))"

text \<open>
  The property key a path becomes in \<^verbatim>\<open>acc[key] = message\<close>: a string is itself, a number
  its decimal text, \<^verbatim>\<open>undefined\<close> (yup's optional \<^verbatim>\<open>path\<close>, \<^verbatim>\<open>issue.path[0]\<close> of an empty
  path) the text \<^verbatim>\<open>undefined\<close>.
\<close>

fun decimal :: "nat \<Rightarrow> string" where
  "decimal n =
     (if n < 10 then [char_of (48 + n)] else decimal (n div 10) @ [char_of (48 + n mod 10)])"

fun propertyKey :: "pathSeg option \<Rightarrow> string" where
  "propertyKey None = ''undefined''"
| "propertyKey (Some (Key k)) = k"
| "propertyKey (Some (Index n)) = decimal n"

fun yupKey :: "string option \<Rightarrow> string" where
  "yupKey None = ''undefined''"
| "yupKey (Some k) = k"

fun first_seg :: "pathSeg list \<Rightarrow> pathSeg option" where
  "first_seg [] = None"
| "first_seg (p # ps) = Some p"

text \<open>\<^verbatim>\<open>validateForm\<close>, lines 89 to 120, again as the \<^verbatim>\<open>try\<close> block and the \<^verbatim>\<open>catch\<close> block.\<close>

fun validateForm_try :: "validationSchema \<Rightarrow> formValues \<Rightarrow> thrown + formErrors" where
  "validateForm_try (Schema validateAt validate) vals =
     (case validate vals of None \<Rightarrow> Inr [] | Some e \<Rightarrow> Inl e)"
| "validateForm_try (ZodSchema parseAsync) vals =
     (case parseAsync vals of None \<Rightarrow> Inr [] | Some e \<Rightarrow> Inl e)"
| "validateForm_try (ValidationFunction f) vals = f vals"

definition validateForm_catch :: "thrown \<Rightarrow> formErrors" where
  "validateForm_catch e =
     (if instanceof_ValidationError e then
        foldl (\<lambda>acc err. AList.update (yupKey (err_path err)) (Some (err_message err)) acc)
          [] (error_inner e)
      else if instanceof_ZodError e then
        foldl (\<lambda>acc issue.
                 AList.update (propertyKey (first_seg (issue_path issue)))
                   (Some (issue_message issue)) acc)
          [] (error_issues e)
      else [])"

definition validateForm :: "useFormOptions \<Rightarrow> formValues \<Rightarrow> formErrors" where
  "validateForm opts vals =
     (case validationSchema opts of
        None \<Rightarrow> []
      | Some schema \<Rightarrow>
          (case validateForm_try schema vals of
             Inr validationErrors \<Rightarrow> validationErrors
           | Inl e \<Rightarrow> validateForm_catch e))"

section \<open>The handlers\<close>

text \<open>
  The \<^verbatim>\<open>switch\<close> of \<^verbatim>\<open>handleChange\<close>, lines 131 to 155, which computes \<^verbatim>\<open>fieldValue\<close>. Only the
  \<^verbatim>\<open>date\<close> case can throw.
\<close>

definition handleChange_fieldValue :: "globals \<Rightarrow> target \<Rightarrow> thrown + jsval" where
  "handleChange_fieldValue g t =
     (if type t = ''file'' then
        Inr (case files t of
               None \<Rightarrow> JNull
             | Some fs \<Rightarrow> (if length fs = 1 then JFile (fs ! 0) else JArray (map JFile fs)))
      else if type t = ''checkbox'' then Inr (JBoolean (checked t))
      else if type t = ''date'' then
        (if value t = [] then Inr JNull
         else (case Date_toISOString g (value t) of
                 None \<Rightarrow> Inl (Error ''Invalid time value'')
               | Some isoText \<Rightarrow> Inr (JString isoText)))
      else if type t = ''number'' then
        Inr (if value t = [] then JNull else JNumber (Number g (value t)))
      else Inr (JString (value t)))"

text \<open>
  \<^verbatim>\<open>handleChange\<close>, lines 122 to 166. \<^verbatim>\<open>validateField\<close> closes over the values of the render
  the handler belongs to, which are the values of the state it starts from.
\<close>

definition handleChange :: "globals \<Rightarrow> useFormOptions \<Rightarrow> formState \<Rightarrow> target \<Rightarrow> thrown + formState" where
  "handleChange g opts s t =
     (case handleChange_fieldValue g t of
        Inl e \<Rightarrow> Inl e
      | Inr fieldValue \<Rightarrow>
          (let s1 = s\<lparr>values := AList.update (name t) fieldValue (values s)\<rparr>;
               s2 = s1\<lparr>touched := AList.update (name t) True (touched s1)\<rparr>
           in if validateOnChange opts then
                (let error = validateField opts (values s) (name t) fieldValue
                 in Inr (s2\<lparr>errors := AList.update (name t) error (errors s2)\<rparr>))
              else Inr s2))"

text \<open>\<^verbatim>\<open>handleBlur\<close>, lines 168 to 186.\<close>

definition handleBlur :: "useFormOptions \<Rightarrow> formState \<Rightarrow> target \<Rightarrow> formState" where
  "handleBlur opts s t =
     (let s1 = s\<lparr>touched := AList.update (name t) True (touched s)\<rparr>
      in if validateOnBlur opts then
           (let error = validateField opts (values s) (name t) (getProp (values s) (name t))
            in s1\<lparr>errors := AList.update (name t) error (errors s1)\<rparr>)
         else s1)"

text \<open>\<^verbatim>\<open>resetForm\<close>, lines 188 to 193.\<close>

definition resetForm :: "useFormOptions \<Rightarrow> formState \<Rightarrow> formState" where
  "resetForm opts s =
     s\<lparr>values := initialValues opts, errors := [], touched := [], isSubmitting := False\<rparr>"

text \<open>\<^verbatim>\<open>setFieldValue\<close>, \<^verbatim>\<open>setFieldError\<close> and \<^verbatim>\<open>setFieldTouched\<close>, lines 220 to 241.\<close>

definition setFieldValue :: "useFormOptions \<Rightarrow> formState \<Rightarrow> string \<Rightarrow> jsval \<Rightarrow> formState" where
  "setFieldValue opts s field v =
     (let s1 = s\<lparr>values := AList.update field v (values s)\<rparr>
      in if validateOnChange opts then
           (let error = validateField opts (values s) field v
            in s1\<lparr>errors := AList.update field error (errors s1)\<rparr>)
         else s1)"

definition setFieldError :: "formState \<Rightarrow> string \<Rightarrow> string \<Rightarrow> formState" where
  "setFieldError s field error = s\<lparr>errors := AList.update field (Some error) (errors s)\<rparr>"

definition setFieldTouched :: "formState \<Rightarrow> string \<Rightarrow> bool \<Rightarrow> formState" where
  "setFieldTouched s field isTouched = s\<lparr>touched := AList.update field isTouched (touched s)\<rparr>"

section \<open>The submission sequencer\<close>

text \<open>
  One call the \<^verbatim>\<open>onSubmit\<close> callback makes on the capabilities it was given:
  \<^verbatim>\<open>resetForm()\<close> or \<^verbatim>\<open>setSubmitting(b)\<close>, which is \<^verbatim>\<open>setIsSubmitting\<close> itself.
\<close>

fun runAction :: "useFormOptions \<Rightarrow> formState \<Rightarrow> action \<Rightarrow> formState" where
  "runAction opts s ResetForm = resetForm opts s"
| "runAction opts s (SetSubmitting b) = s\<lparr>isSubmitting := b\<rparr>"

text \<open>
  What a submit attempt leaves behind: the state, the arguments of every call of
  \<^verbatim>\<open>onSubmit\<close> in order, and the value the promise of \<^verbatim>\<open>handleSubmit\<close> rejects with, if it
  does.
\<close>

record submission =
  final :: formState
  calls :: "formValues list"
  rejected :: "thrown option"

text \<open>
  \<^verbatim>\<open>handleSubmit\<close>, lines 195 to 218. \<open>handleSubmit_validated\<close> is its first part, lines 198 to
  207: the flag is raised, the form validated, the errors stored and every key of the
  initial values marked touched. It returns \<^verbatim>\<open>validationErrors\<close> and the state reached.
\<close>

definition handleSubmit_validated :: "useFormOptions \<Rightarrow> formState \<Rightarrow> formErrors \<times> formState" where
  "handleSubmit_validated opts s =
     (let s1 = s\<lparr>isSubmitting := True\<rparr>;
          validationErrors = validateForm opts (values s);
          s2 = s1\<lparr>errors := validationErrors\<rparr>;
          s3 = s2\<lparr>touched :=
                  foldl (\<lambda>acc key. AList.update key True acc) [] (Object_keys (initialValues opts))\<rparr>
      in (validationErrors, s3))"

definition handleSubmit :: "useFormOptions \<Rightarrow> formState \<Rightarrow> submission" where
  "handleSubmit opts s =
     (case handleSubmit_validated opts s of
        (validationErrors, s3) \<Rightarrow>
          (if length (Object_keys validationErrors) = 0 then
             (case onSubmit opts (values s) of
                (actions, outcome) \<Rightarrow>
                  (let s4 = foldl (runAction opts) s3 actions
                   in (case outcome of
                         Some e \<Rightarrow> \<lparr>final = s4, calls = [values s], rejected = Some e\<rparr>
                       | None \<Rightarrow>
                           \<lparr>final = s4\<lparr>isSubmitting := False\<rparr>, calls = [values s],
                            rejected = None\<rparr>)))
           else \<lparr>final = s3\<lparr>isSubmitting := False\<rparr>, calls = [], rejected = None\<rparr>))"

text \<open>The state of the first render: \<^verbatim>\<open>useState\<close> of lines 41 to 44.\<close>

definition initialState :: "useFormOptions \<Rightarrow> formState" where
  "initialState opts = \<lparr>values = initialValues opts, errors = [], touched = [], isSubmitting = False\<rparr>"

section \<open>Example forms\<close>

text \<open>
  The form of the README: one text field \<^verbatim>\<open>username\<close>, initially empty. \<open>plainOptions\<close> has
  no validator and a callback that returns at once.
\<close>

definition usernameValues :: formValues where
  "usernameValues = [(''username'', JString [])]"

definition returnsAtOnce :: "formValues \<Rightarrow> action list \<times> thrown option" where
  "returnsAtOnce vals = ([], None)"

definition plainOptions :: useFormOptions where
  "plainOptions =
     \<lparr>initialValues = usernameValues, validationSchema = None, onSubmit = returnsAtOnce,
      validateOnChange = True, validateOnBlur = True\<rparr>"

text \<open>A callback that fails: \<^verbatim>\<open>onSubmit: async () => { throw new Error("Network down") }\<close>.\<close>

definition throwsNetworkDown :: "formValues \<Rightarrow> action list \<times> thrown option" where
  "throwsNetworkDown vals = ([], Some (Error ''Network down''))"

definition throwingOptions :: useFormOptions where
  "throwingOptions = plainOptions\<lparr>onSubmit := throwsNetworkDown\<rparr>"

text \<open>
  The callback of the README's \<^verbatim>\<open>App\<close>:
  \<^verbatim>\<open>onSubmit: async (values, { resetForm }) => { console.log(...); resetForm(); }\<close>.
\<close>

definition resetsForm :: "formValues \<Rightarrow> action list \<times> thrown option" where
  "resetsForm vals = ([ResetForm], None)"

definition resettingOptions :: useFormOptions where
  "resettingOptions = plainOptions\<lparr>onSubmit := resetsForm\<rparr>"



text \<open>
  A yup schema with a cross-field rule:
  \<^verbatim>\<open>confirm: Yup.string().oneOf([Yup.ref("password")], "Passwords must match")\<close>.
  The rule at \<^verbatim>\<open>confirm\<close> compares it with the \<^verbatim>\<open>password\<close> of the object it is given.
\<close>

definition passwordsMatch :: "formValues \<Rightarrow> thrown option" where
  "passwordsMatch data =
     (if getProp data ''confirm'' = getProp data ''password'' then None
      else Some (ValidationError ''Passwords must match''
                   [InnerError (Some ''confirm'') ''Passwords must match'']))"

definition confirm_validateAt :: "string \<Rightarrow> formValues \<Rightarrow> thrown option" where
  "confirm_validateAt path data = (if path = ''confirm'' then passwordsMatch data else None)"

definition confirmOptions :: useFormOptions where
  "confirmOptions =
     \<lparr>initialValues = [(''password'', JString []), (''confirm'', JString [])],
      validationSchema = Some (Schema confirm_validateAt passwordsMatch),
      onSubmit = returnsAtOnce, validateOnChange = True, validateOnBlur = True\<rparr>"

text \<open>The values of that form once \<^verbatim>\<open>abc\<close> has been typed into \<^verbatim>\<open>password\<close>.\<close>

definition passwordTyped :: formValues where
  "passwordTyped = [(''password'', JString ''abc''), (''confirm'', JString [])]"

text \<open>
  A zod schema \<^verbatim>\<open>z.object({ username: z.string().min(3, "Too short") })\<close>. The message of
  the \<^verbatim>\<open>ZodError\<close> is the JSON text of its issues.
\<close>

definition tooShortText :: string where
  \<open>tooShortText = ''[{"code":"too_small","message":"Too short","path":["username"]}]''\<close>

definition requiredText :: string where
  \<open>requiredText = ''[{"code":"invalid_type","message":"Required","path":["username"]}]''\<close>

definition username_parseAsync :: "formValues \<Rightarrow> thrown option" where
  "username_parseAsync data =
     (case getProp data ''username'' of
        JString text \<Rightarrow>
          (if length text < 3 then Some (ZodError tooShortText [ZodIssue [Key ''username''] ''Too short''])
           else None)
      | other \<Rightarrow> Some (ZodError requiredText [ZodIssue [Key ''username''] ''Required'']))"

definition zodOptions :: useFormOptions where
  "zodOptions = plainOptions\<lparr>validationSchema := Some (ZodSchema username_parseAsync)\<rparr>"

text \<open>The builtins, on the texts the examples use.\<close>

definition example_Number :: "string \<Rightarrow> jsnumber" where
  "example_Number text = (if text = ''42'' then Finite 42 else NaN)"

definition example_toISOString :: "string \<Rightarrow> string option" where
  "example_toISOString text =
     (if text = ''2024-01-15'' then Some ''2024-01-15T00:00:00.000Z'' else None)"

definition exampleGlobals :: globals where
  "exampleGlobals = \<lparr>Number = example_Number, Date_toISOString = example_toISOString\<rparr>"

text \<open>A text input named \<^verbatim>\<open>username\<close> holding \<^verbatim>\<open>bob\<close>, and a file input with no file selected.\<close>

definition usernameInput :: target where
  "usernameInput =
     \<lparr>name = ''username'', value = ''bob'', type = ''text'', files = None, checked = False\<rparr>"

definition emptyFileInput :: target where
  "emptyFileInput =
     \<lparr>name = ''avatar'', value = [], type = ''file'', files = Some [], checked = False\<rparr>"

section \<open>Auxiliary facts\<close>

lemma foldl_update_True:
  "map_of (foldl (\<lambda>acc key. AList.update key True acc) acc0 ks) k =
     (if k \<in> set ks then Some True else map_of acc0 k)"
  by (induction ks arbitrary: acc0) (auto simp: update_conv')

lemma runAction_touched:
  "ResetForm \<notin> set actions \<Longrightarrow> touched (foldl (runAction opts) s actions) = touched s"
proof (induction actions arbitrary: s)
  case Nil
  then show ?case by simp
next
  case (Cons a actions)
  then show ?case by (cases a) auto
qed

lemma runAction_errors:
  "errors (foldl (runAction opts) s actions) = (if ResetForm \<in> set actions then [] else errors s)"
proof (induction actions arbitrary: s)
  case Nil
  then show ?case by simp
next
  case (Cons a actions)
  then show ?case by (cases a) (auto simp: resetForm_def)
qed

lemma handleSubmit_validated_fst:
  "fst (handleSubmit_validated opts s) = validateForm opts (values s)"
  by (simp add: handleSubmit_validated_def Let_def)

text \<open>Whenever \<^verbatim>\<open>handleSubmit\<close> completes without rejecting, the flag is down.\<close>

lemma handleSubmit_returns_resets:
  "rejected (handleSubmit opts s) = None \<Longrightarrow> \<not> isSubmitting (final (handleSubmit opts s))"
  by (auto simp: handleSubmit_def Let_def split: prod.splits option.splits if_splits)

text \<open>With a yup schema the object validated holds the one field, whatever the values are.\<close>

lemma validateField_Schema:
  "validationSchema opts = Some (Schema validateAt validate) \<Longrightarrow>
     validateField opts vals field v =
       (case validateAt field [(field, v)] of None \<Rightarrow> None | Some e \<Rightarrow> validateField_catch field e)"
  by (simp add: validateField_def)

text \<open>
  A \<^verbatim>\<open>ZodError\<close> is answered by the first test of the \<^verbatim>\<open>catch\<close> block; and whatever is
  thrown, the block returns a message.
\<close>

lemma validateField_catch_ZodError:
  "validateField_catch field (ZodError m issues) = Some m"
  by (simp add: validateField_catch_def)

lemma validateField_catch_message: "\<exists>m. validateField_catch field e = Some m"
  by (simp add: validateField_catch_def)

section \<open>The claims\<close>

text \<open>
  C1. Every submit attempt ends with \<^verbatim>\<open>isSubmitting\<close> false, also when the callback
  throws. The code has no \<^verbatim>\<open>try\<close>/\<^verbatim>\<open>finally\<close> around \<^verbatim>\<open>await onSubmit(...)\<close>: when the callback
  throws, line 215 is never reached. Evaluated on a form without validator whose callback
  throws: the attempt rejects and leaves \<^verbatim>\<open>isSubmitting\<close> true.
\<close>

theorem handleSubmit_callback_throws_flag_stuck:
  "isSubmitting (final (handleSubmit throwingOptions (initialState throwingOptions)))
   \<and> rejected (handleSubmit throwingOptions (initialState throwingOptions))
       = Some (Error ''Network down'')"
  by (simp add: handleSubmit_def handleSubmit_validated_def validateForm_def Object_keys_def
      initialState_def throwingOptions_def plainOptions_def throwsNetworkDown_def Let_def)

text \<open>
  C2. With a yup schema, \<^verbatim>\<open>validateField\<close> validates at the path against the current
  values merged with the one override. The code passes \<^verbatim>\<open>{ [field]: value }\<close> alone. With
  \<^verbatim>\<open>password\<close> holding \<^verbatim>\<open>abc\<close>, validating \<^verbatim>\<open>confirm\<close> with \<^verbatim>\<open>abc\<close> answers "Passwords must
  match", although the rule accepts the merged values.
\<close>

theorem validateField_Schema_single_field_bag:
  "validateField confirmOptions passwordTyped ''confirm'' (JString ''abc'') = Some ''Passwords must match''
   \<and> confirm_validateAt ''confirm'' (AList.update ''confirm'' (JString ''abc'') passwordTyped) = None"
  by (simp add: validateField_def validateField_catch_def confirmOptions_def confirm_validateAt_def
      passwordsMatch_def passwordTyped_def getProp_def)

text \<open>
  C3. With a zod schema that fails, \<^verbatim>\<open>validateField\<close> returns the message of the issue
  whose path includes the field, or "Invalid value". The \<^verbatim>\<open>catch\<close> block tests
  \<^verbatim>\<open>instanceof Error\<close> before \<^verbatim>\<open>instanceof ZodError\<close>, and a \<^verbatim>\<open>ZodError\<close> is an \<^verbatim>\<open>Error\<close>: the
  code returns the message of the error object, the JSON text of all its issues. The
  issue list holds an issue for \<^verbatim>\<open>username\<close> with the message "Too short", which is not
  what is returned.
\<close>

theorem validateField_ZodError_message:
  "validateField zodOptions usernameValues ''username'' (JString ''ab'') = Some tooShortText
   \<and> find (\<lambda>issue. Key ''username'' \<in> set (issue_path issue))
         [ZodIssue [Key ''username''] ''Too short''] = Some (ZodIssue [Key ''username''] ''Too short'')
   \<and> tooShortText \<noteq> ''Too short''"
  by (simp add: validateField_def validateField_catch_def zodOptions_def plainOptions_def
      username_parseAsync_def getProp_def tooShortText_def)

text \<open>
  What a change of kind \<^verbatim>\<open>file\<close> stores, for every file list: the test of line 138 is on
  the presence of the list, so the \<^verbatim>\<open>null\<close> arm is taken only when there is no list.
\<close>

lemma handleChange_file:
  "\<exists>s'. handleChange g opts s (t\<lparr>type := ''file'', files := fl\<rparr>) = Inr s'
        \<and> map_of (values s') (name t) =
            Some (case fl of
                    None \<Rightarrow> JNull
                  | Some [] \<Rightarrow> JArray []
                  | Some [f] \<Rightarrow> JFile f
                  | Some (f # f' # fs) \<Rightarrow> JArray (map JFile (f # f' # fs)))"
  by (simp add: handleChange_def handleChange_fieldValue_def Let_def update_conv'
      split: option.splits list.splits)

text \<open>
  C4. A change of kind \<^verbatim>\<open>file\<close> stores the single file when exactly one is present, the
  files in order when there are more, and \<^verbatim>\<open>null\<close> when zero files are selected. The code
  has the \<^verbatim>\<open>null\<close> arm, but guards it with \<^verbatim>\<open>input.files\<close>, which a file input always
  has: its \<^verbatim>\<open>FileList\<close> is empty, not absent, when nothing is selected. Evaluated on a file
  input with no file selected: the empty array is stored, not \<^verbatim>\<open>null\<close>, where the \<^verbatim>\<open>date\<close>
  and \<^verbatim>\<open>number\<close> cases store \<^verbatim>\<open>null\<close> for their empty input.
\<close>

theorem handleChange_file_none_selected:
  "handleChange exampleGlobals plainOptions (initialState plainOptions) emptyFileInput
   = Inr \<lparr>values = [(''username'', JString []), (''avatar'', JArray [])],
          errors = [(''avatar'', None)], touched = [(''avatar'', True)], isSubmitting = False\<rparr>"
  by (simp add: handleChange_def handleChange_fieldValue_def validateField_def plainOptions_def
      initialState_def usernameValues_def emptyFileInput_def Let_def)

text \<open>
  C5, as amended. With validation enabled, \<^verbatim>\<open>setFieldValue\<close>, \<^verbatim>\<open>handleChange\<close> and
  \<^verbatim>\<open>handleBlur\<close> always write the key of the field into the errors object, holding what
  \<^verbatim>\<open>validateField\<close> returned: the message, or \<^verbatim>\<open>undefined\<close> when the validation succeeded.
  A field has no error when its key is absent or holds \<^verbatim>\<open>undefined\<close>.
\<close>

theorem errors_merge_keeps_key:
  "(validateOnChange opts \<longrightarrow>
      map_of (errors (setFieldValue opts s field v)) field = Some (validateField opts (values s) field v))
   \<and> (validateOnChange opts \<and> handleChange_fieldValue g t = Inr fieldValue \<longrightarrow>
        (\<exists>s'. handleChange g opts s t = Inr s'
             \<and> map_of (errors s') (name t) = Some (validateField opts (values s) (name t) fieldValue)))
   \<and> (validateOnBlur opts \<longrightarrow>
        map_of (errors (handleBlur opts s t)) (name t)
          = Some (validateField opts (values s) (name t) (getProp (values s) (name t))))"
  by (simp add: setFieldValue_def handleChange_def handleBlur_def Let_def update_conv')

theorem errors_merge_keeps_key_witness:
  "validateOnChange plainOptions \<and> validateOnBlur plainOptions
   \<and> handleChange_fieldValue exampleGlobals usernameInput = Inr (JString ''bob'')
   \<and> validateField plainOptions (values (initialState plainOptions)) ''username'' (JString ''bob'') = None
   \<and> map_of (errors (setFieldValue plainOptions (initialState plainOptions) ''username'' (JString ''bob'')))
        ''username'' = Some None
   \<and> (\<exists>s'. handleChange exampleGlobals plainOptions (initialState plainOptions) usernameInput = Inr s'
          \<and> map_of (errors s') ''username'' = Some None)
   \<and> map_of (errors (handleBlur plainOptions (initialState plainOptions) usernameInput)) ''username''
       = Some None"
proof -
  have c: "validateOnChange plainOptions" and b: "validateOnBlur plainOptions"
    by (simp_all add: plainOptions_def)
  have fv: "handleChange_fieldValue exampleGlobals usernameInput = Inr (JString ''bob'')"
    by (simp add: handleChange_fieldValue_def usernameInput_def)
  have n: "name usernameInput = ''username''"
    by (simp add: usernameInput_def)
  have ok: "validateField plainOptions vals field v = None" for vals field v
    by (simp add: validateField_def plainOptions_def)
  from errors_merge_keeps_key [of plainOptions "initialState plainOptions" "''username''"
      "JString ''bob''" exampleGlobals usernameInput "JString ''bob''"] c b fv ok n
  show ?thesis by simp
qed

text \<open>
  As stated, a successful validation leaves no key for the field. Setting \<^verbatim>\<open>username\<close> on
  the fresh form, whose validation succeeds, leaves the key in the errors object.
\<close>

theorem setFieldValue_success_key_counterexample:
  "validateField plainOptions (values (initialState plainOptions)) ''username'' (JString ''bob'') = None
   \<and> errors (initialState plainOptions) = []
   \<and> errors (setFieldValue plainOptions (initialState plainOptions) ''username'' (JString ''bob''))
       = [(''username'', None)]"
  by (simp add: setFieldValue_def validateField_def plainOptions_def initialState_def Let_def)



text \<open>
  C7, as amended. Once a submit attempt has marked the fields, every key of the initial
  values is touched, whatever was touched before and whatever the validation found; and
  this is still so when the attempt ends, provided the callback was not called or did not
  call \<^verbatim>\<open>resetForm\<close>.
\<close>

theorem handleSubmit_touched:
  "k \<in> set (Object_keys (initialValues opts)) \<Longrightarrow>
     map_of (touched (snd (handleSubmit_validated opts s))) k = Some True
     \<and> (ResetForm \<notin> set (fst (onSubmit opts (values s)))
          \<or> Object_keys (validateForm opts (values s)) \<noteq> [] \<longrightarrow>
        map_of (touched (final (handleSubmit opts s))) k = Some True)"
proof -
  assume k: "k \<in> set (Object_keys (initialValues opts))"
  obtain ve s3 where v: "handleSubmit_validated opts s = (ve, s3)"
    by (cases "handleSubmit_validated opts s")
  from v handleSubmit_validated_fst [of opts s] have ve: "ve = validateForm opts (values s)"
    by simp
  have marked: "map_of (touched (snd (handleSubmit_validated opts s))) k = Some True"
    using k by (simp add: handleSubmit_validated_def Let_def foldl_update_True)
  have final: "map_of (touched (final (handleSubmit opts s))) k = Some True"
    if "ResetForm \<notin> set (fst (onSubmit opts (values s)))
        \<or> Object_keys (validateForm opts (values s)) \<noteq> []"
  proof (cases "Object_keys (validateForm opts (values s)) = []")
    case True
    with that have nr: "ResetForm \<notin> set (fst (onSubmit opts (values s)))" by simp
    obtain actions outcome where cb: "onSubmit opts (values s) = (actions, outcome)"
      by (cases "onSubmit opts (values s)")
    from nr cb have "touched (foldl (runAction opts) s3 actions) = touched s3"
      by (simp add: runAction_touched)
    with True v ve cb marked show ?thesis
      by (simp add: handleSubmit_def Let_def split: option.splits)
  next
    case False
    with v ve marked show ?thesis
      by (simp add: handleSubmit_def)
  qed
  from marked final show ?thesis by blast
qed

theorem handleSubmit_touched_witness:
  "''username'' \<in> set (Object_keys (initialValues plainOptions))
   \<and> ResetForm \<notin> set (fst (onSubmit plainOptions (values (initialState plainOptions))))
   \<and> map_of (touched (snd (handleSubmit_validated plainOptions (initialState plainOptions)))) ''username''
       = Some True
   \<and> map_of (touched (final (handleSubmit plainOptions (initialState plainOptions)))) ''username''
       = Some True"
proof -
  have k: "''username'' \<in> set (Object_keys (initialValues plainOptions))"
    by (simp add: plainOptions_def usernameValues_def Object_keys_def)
  have nr: "ResetForm \<notin> set (fst (onSubmit plainOptions (values (initialState plainOptions))))"
    by (simp add: plainOptions_def returnsAtOnce_def)
  from handleSubmit_touched [OF k, of "initialState plainOptions"] k nr
  show ?thesis by blast
qed

text \<open>
  As stated, every declared field is touched after any submit attempt. With the callback
  of the README, which calls \<^verbatim>\<open>resetForm\<close>, the declared field \<^verbatim>\<open>username\<close> has no entry in
  \<^verbatim>\<open>touched\<close> when the attempt ends.
\<close>

theorem handleSubmit_touched_counterexample:
  "map_of (touched (final (handleSubmit resettingOptions (initialState resettingOptions)))) ''username''
     = None
   \<and> ''username'' \<in> set (Object_keys (initialValues resettingOptions))"
  by (simp add: handleSubmit_def handleSubmit_validated_def validateForm_def Object_keys_def
      initialState_def resettingOptions_def plainOptions_def resetsForm_def resetForm_def
      usernameValues_def Let_def)

text \<open>
  C8. From every state, \<^verbatim>\<open>resetForm()\<close> makes the values the initial values, the errors and
  the touched object empty, and \<^verbatim>\<open>isSubmitting\<close> false.
\<close>

theorem resetForm_restores:
  "resetForm opts s = \<lparr>values = initialValues opts, errors = [], touched = [], isSubmitting = False\<rparr>"
  by (simp add: resetForm_def)

text \<open>
  C9. A change of kind \<^verbatim>\<open>number\<close> completes without throwing and stores \<^verbatim>\<open>null\<close> when the raw
  text is empty, and otherwise \<^verbatim>\<open>Number\<close> of the raw text, which is \<^verbatim>\<open>NaN\<close> for a text that is
  no number.
\<close>

theorem handleChange_number:
  "\<exists>s'. handleChange g opts s (t\<lparr>type := ''number'', value := raw\<rparr>) = Inr s'
        \<and> map_of (values s') (name t) = Some (if raw = [] then JNull else JNumber (Number g raw))"
  by (simp add: handleChange_def handleChange_fieldValue_def Let_def update_conv')

text \<open>
  C10. A submit attempt replaces the errors object by the result of \<^verbatim>\<open>validateForm()\<close>:
  after the validation step the errors are exactly that result, whatever they held
  before. They stay so to the end of the attempt, unless the callback runs and calls
  \<^verbatim>\<open>resetForm\<close>, which empties them.
\<close>

theorem handleSubmit_errors_replaced:
  "errors (snd (handleSubmit_validated opts s)) = validateForm opts (values s)
   \<and> errors (final (handleSubmit opts s)) =
       (if Object_keys (validateForm opts (values s)) = []
           \<and> ResetForm \<in> set (fst (onSubmit opts (values s)))
        then [] else validateForm opts (values s))"
proof -
  obtain ve s3 where v: "handleSubmit_validated opts s = (ve, s3)"
    by (cases "handleSubmit_validated opts s")
  obtain actions outcome where cb: "onSubmit opts (values s) = (actions, outcome)"
    by (cases "onSubmit opts (values s)")
  from v have ve: "ve = validateForm opts (values s)" and e3: "errors s3 = validateForm opts (values s)"
    by (auto simp: handleSubmit_validated_def Let_def)
  from v e3 have stored: "errors (snd (handleSubmit_validated opts s)) = validateForm opts (values s)"
    by simp
  from v ve e3 cb have
    "errors (final (handleSubmit opts s)) =
       (if Object_keys (validateForm opts (values s)) = []
           \<and> ResetForm \<in> set (fst (onSubmit opts (values s)))
        then [] else validateForm opts (values s))"
    by (simp add: handleSubmit_def Let_def runAction_errors split: option.splits)
  with stored show ?thesis by simp
qed

end
